theory Spec2Isabelle
  imports Main
begin

section \<open>Python values used by gym.py\<close>

text \<open>
  The exercise records handled by \<^verbatim>\<open>gym.py\<close> are Python dictionaries from field names to
  strings (\<^verbatim>\<open>List[Dict]\<close>).  A dictionary is modelled as an association list in insertion
  order; subscripting \<^verbatim>\<open>ex['k']\<close> raises \<^verbatim>\<open>KeyError\<close> when the key is absent.
  Strings are byte strings here: the case conversions below act on the ASCII letters only.
\<close>

type_synonym exercise = "(string \<times> string) list"

datatype py_error = KeyError string | JSONDecodeError | ServiceError

definition getitem :: "exercise \<Rightarrow> string \<Rightarrow> py_error + string" where
  "getitem ex k = (case map_of ex k of None \<Rightarrow> Inl (KeyError k) | Some v \<Rightarrow> Inr v)"

text \<open>Assignment \<^verbatim>\<open>d[k] = v\<close>: an existing key keeps its position, a new key goes last.\<close>

fun dict_set :: "('k \<times> 'v) list \<Rightarrow> 'k \<Rightarrow> 'v \<Rightarrow> ('k \<times> 'v) list" where
  "dict_set [] k v = [(k, v)]"
| "dict_set ((k', v') # kvs) k v =
     (if k' = k then (k, v) # kvs else (k', v') # dict_set kvs k v)"

subsection \<open>String methods\<close>

definition ascii_lowercase :: string where
  "ascii_lowercase = ''abcdefghijklmnopqrstuvwxyz''"

definition ascii_uppercase :: string where
  "ascii_uppercase = ''ABCDEFGHIJKLMNOPQRSTUVWXYZ''"

definition is_lower :: "char \<Rightarrow> bool" where
  "is_lower c = (c \<in> set ascii_lowercase)"

definition is_upper :: "char \<Rightarrow> bool" where
  "is_upper c = (c \<in> set ascii_uppercase)"

definition to_upper :: "char \<Rightarrow> char" where
  "to_upper c = (case map_of (zip ascii_lowercase ascii_uppercase) c of Some u \<Rightarrow> u | None \<Rightarrow> c)"

definition to_lower :: "char \<Rightarrow> char" where
  "to_lower c = (case map_of (zip ascii_uppercase ascii_lowercase) c of Some l \<Rightarrow> l | None \<Rightarrow> c)"

text \<open>\<^verbatim>\<open>str.lower()\<close>.\<close>

definition lower :: "string \<Rightarrow> string" where
  "lower s = map to_lower s"

text \<open>
  \<^verbatim>\<open>str.title()\<close>: a cased character that follows an uncased one (or starts the string) is
  upper-cased, every other cased character is lower-cased.
\<close>

fun title_from :: "bool \<Rightarrow> string \<Rightarrow> string" where
  "title_from previous_is_cased [] = []"
| "title_from previous_is_cased (c # cs) =
     (if is_lower c then
        (if previous_is_cased then c else to_upper c) # title_from True cs
      else if is_upper c then
        (if previous_is_cased then to_lower c else c) # title_from True cs
      else c # title_from False cs)"

definition title :: "string \<Rightarrow> string" where
  "title s = title_from False s"

text \<open>\<^verbatim>\<open>s.startswith(p)\<close>.\<close>

fun startswith :: "string \<Rightarrow> string \<Rightarrow> bool" where
  "startswith s [] = True"
| "startswith [] (p # ps) = False"
| "startswith (c # cs) (p # ps) = (c = p \<and> startswith cs ps)"

text \<open>
  \<^verbatim>\<open>s.replace(old, new)\<close>: every non-overlapping occurrence of \<open>old\<close>, from the left.
  With an empty \<open>old\<close> Python puts \<open>new\<close> before every character and at the end.
\<close>

fun replace_from :: "string \<Rightarrow> string \<Rightarrow> string \<Rightarrow> string" where
  "replace_from [] old new = []"
| "replace_from (c # cs) old new =
     (if startswith (c # cs) old then new @ replace_from (drop (length old - 1) cs) old new
      else c # replace_from cs old new)"

definition replace :: "string \<Rightarrow> string \<Rightarrow> string \<Rightarrow> string" where
  "replace s old new =
     (if old = [] then new @ concat (map (\<lambda>c. c # new) s) else replace_from s old new)"

text \<open>\<^verbatim>\<open>str(n)\<close> for an integer, as the f-strings format it.\<close>

definition digit_char :: "nat \<Rightarrow> char" where
  "digit_char d = ''0123456789'' ! d"

fun str_nat :: "nat \<Rightarrow> string" where
  "str_nat n =
     (if n < 10 then [digit_char n] else str_nat (n div 10) @ [digit_char (n mod 10)])"

declare str_nat.simps [simp del]

definition str_int :: "int \<Rightarrow> string" where
  "str_int i = (if i < 0 then CHR ''-'' # str_nat (nat (- i)) else str_nat (nat i))"

section \<open>The plan objects\<close>

record planned_exercise =
  name :: string
  sets :: int
  reps :: string
  rest :: string
  notes' :: string

record day_schedule =
  focus :: string
  exercises :: "planned_exercise list"

record workout_plan =
  plan_name :: string
  overview :: string
  weekly_schedule :: "(string \<times> day_schedule) list"
  progression_tips :: "string list"
  success_tips :: "string list"

text \<open>
  The user profile is the dictionary built in \<^verbatim>\<open>main\<close>; the generator reads it with
  \<^verbatim>\<open>.get(key, default)\<close>, so every field may be absent.
\<close>

record user_profile =
  goal :: "string option"
  experience :: "string option"
  days_per_week :: "int option"
  duration :: "int option"
  equipment :: "string list option"
  focus_areas :: "string list option"

section \<open>\<^verbatim>\<open>WorkoutAI._generate_fallback_plan\<close>\<close>

text \<open>
  The comprehension
  \<^verbatim>\<open>[ex for ex in exercises if ex['difficulty'] == experience or experience == 'advanced']\<close>.
  The left operand of \<^verbatim>\<open>or\<close> is evaluated first, so \<^verbatim>\<open>ex['difficulty']\<close> is read for every
  record.
\<close>

fun filter_by_difficulty :: "string \<Rightarrow> exercise list \<Rightarrow> py_error + exercise list" where
  "filter_by_difficulty level [] = Inr []"
| "filter_by_difficulty level (ex # exs) =
     (case getitem ex ''difficulty'' of
        Inl e \<Rightarrow> Inl e
      | Inr d \<Rightarrow>
          (case filter_by_difficulty level exs of
             Inl e \<Rightarrow> Inl e
           | Inr kept \<Rightarrow> Inr (if d = level \<or> level = ''advanced'' then ex # kept else kept)))"

definition suitable_exercises :: "string \<Rightarrow> exercise list \<Rightarrow> py_error + exercise list" where
  "suitable_exercises level exs =
     (case filter_by_difficulty level exs of
        Inl e \<Rightarrow> Inl e
      | Inr suitable \<Rightarrow> Inr (if suitable = [] then exs else suitable))"

definition sets_reps_rest :: "string \<Rightarrow> int \<times> string \<times> string" where
  "sets_reps_rest level =
     (if level = ''beginner'' then (2, ''8-12'', ''90 seconds'')
      else if level = ''intermediate'' then (3, ''10-15'', ''60 seconds'')
      else (3, ''12-20'', ''45 seconds''))"

text \<open>The comprehension that builds one day's exercise entries; \<^verbatim>\<open>ex['name']\<close> may raise.\<close>

fun planned_exercises ::
  "int \<times> string \<times> string \<Rightarrow> exercise list \<Rightarrow> py_error + planned_exercise list" where
  "planned_exercises srr [] = Inr []"
| "planned_exercises srr (ex # exs) =
     (case getitem ex ''name'' of
        Inl e \<Rightarrow> Inl e
      | Inr n \<Rightarrow>
          (case planned_exercises srr exs of
             Inl e \<Rightarrow> Inl e
           | Inr pes \<Rightarrow>
               Inr (\<lparr>name = n, sets = fst srr, reps = fst (snd srr), rest = snd (snd srr),
                     notes' = ''Focus on proper form''\<rparr> # pes)))"

definition day_key :: "int \<Rightarrow> string" where
  "day_key day = ''day_'' @ str_int day"

text \<open>The loop \<^verbatim>\<open>for day in range(1, days_per_week + 1)\<close> over the schedule dictionary.\<close>

fun daily_workouts ::
  "string \<Rightarrow> exercise list \<Rightarrow> int list \<Rightarrow> (string \<times> day_schedule) list \<Rightarrow>
   py_error + (string \<times> day_schedule) list" where
  "daily_workouts level suitable [] schedule = Inr schedule"
| "daily_workouts level suitable (day # days) schedule =
     (let selected_exercises = take 4 suitable in
      case planned_exercises (sets_reps_rest level) selected_exercises of
        Inl e \<Rightarrow> Inl e
      | Inr pes \<Rightarrow>
          daily_workouts level suitable days
            (dict_set schedule (day_key day)
               \<lparr>focus = (if day \<le> 3 then ''Full Body'' else ''Active Recovery''),
                exercises = pes\<rparr>))"

definition fallback_progression_tips :: "string list" where
  "fallback_progression_tips =
     [''Increase weight/reps by 5-10% when you can complete all sets easily'',
      ''Focus on proper form before increasing intensity'',
      ''Rest at least one day between intense workouts'']"

definition fallback_success_tips :: "string list" where
  "fallback_success_tips =
     [''Stay consistent with your schedule'',
      ''Track your progress'',
      ''Listen to your body and rest when needed'',
      ''Stay hydrated and eat well'']"

definition generate_fallback_plan ::
  "user_profile \<Rightarrow> exercise list \<Rightarrow> py_error + workout_plan" where
  "generate_fallback_plan profile exs =
     (let n_days = (case days_per_week profile of None \<Rightarrow> 3 | Some d \<Rightarrow> d);
          level = (case experience profile of None \<Rightarrow> ''beginner'' | Some x \<Rightarrow> x);
          goal_name = (case goal profile of None \<Rightarrow> ''general_fitness'' | Some g \<Rightarrow> g)
      in case suitable_exercises level exs of
           Inl e \<Rightarrow> Inl e
         | Inr suitable \<Rightarrow>
             (case daily_workouts level suitable [1..n_days] [] of
                Inl e \<Rightarrow> Inl e
              | Inr schedule \<Rightarrow>
                  Inr \<lparr>plan_name =
                         ''Custom '' @ title level @ '' '' @
                         title (replace goal_name ''_'' '' '') @ '' Plan'',
                       overview =
                         ''A '' @ str_int n_days @ ''-day per week workout plan focused on '' @
                         replace goal_name ''_'' '' '',
                       weekly_schedule = schedule,
                       progression_tips = fallback_progression_tips,
                       success_tips = fallback_success_tips\<rparr>))"

section \<open>\<^verbatim>\<open>ExerciseAPI\<close>\<close>

subsection \<open>The local catalog of \<^verbatim>\<open>get_fallback_exercises\<close>\<close>

definition push_ups :: exercise where
  "push_ups =
     [(''name'', ''Push-ups''),
      (''type'', ''strength''),
      (''muscle'', ''chest''),
      (''equipment'', ''body_only''),
      (''difficulty'', ''beginner''),
      (''instructions'',
        ''Start in plank position. Lower body until chest nearly touches floor. Push back up to start position.'')]"

definition squats :: exercise where
  "squats =
     [(''name'', ''Squats''),
      (''type'', ''strength''),
      (''muscle'', ''quadriceps''),
      (''equipment'', ''body_only''),
      (''difficulty'', ''beginner''),
      (''instructions'',
        ''Stand with feet shoulder-width apart. Lower body by bending knees and hips. Return to starting position.'')]"

definition plank :: exercise where
  "plank =
     [(''name'', ''Plank''),
      (''type'', ''strength''),
      (''muscle'', ''abdominals''),
      (''equipment'', ''body_only''),
      (''difficulty'', ''beginner''),
      (''instructions'',
        ''Hold a push-up position with forearms on ground. Keep body straight from head to heels.'')]"

definition lunges :: exercise where
  "lunges =
     [(''name'', ''Lunges''),
      (''type'', ''strength''),
      (''muscle'', ''quadriceps''),
      (''equipment'', ''body_only''),
      (''difficulty'', ''intermediate''),
      (''instructions'',
        ''Step forward with one leg, lowering hips until both knees are bent at 90 degrees. Return to start.'')]"

definition burpees :: exercise where
  "burpees =
     [(''name'', ''Burpees''),
      (''type'', ''cardio''),
      (''muscle'', ''full_body''),
      (''equipment'', ''body_only''),
      (''difficulty'', ''intermediate''),
      (''instructions'',
        ''From standing, drop to squat, jump back to plank, do push-up, jump forward to squat, jump up.'')]"

definition mountain_climbers :: exercise where
  "mountain_climbers =
     [(''name'', ''Mountain Climbers''),
      (''type'', ''cardio''),
      (''muscle'', ''abdominals''),
      (''equipment'', ''body_only''),
      (''difficulty'', ''intermediate''),
      (''instructions'',
        ''Start in plank position. Alternate bringing knees to chest in running motion.'')]"

definition deadlifts :: exercise where
  "deadlifts =
     [(''name'', ''Deadlifts''),
      (''type'', ''strength''),
      (''muscle'', ''hamstrings''),
      (''equipment'', ''barbell''),
      (''difficulty'', ''intermediate''),
      (''instructions'',
        ''Stand with barbell at feet. Bend at hips and knees to lower bar. Stand up by extending hips and knees.'')]"

definition pull_ups :: exercise where
  "pull_ups =
     [(''name'', ''Pull-ups''),
      (''type'', ''strength''),
      (''muscle'', ''lats''),
      (''equipment'', ''pull_up_bar''),
      (''difficulty'', ''intermediate''),
      (''instructions'',
        ''Hang from pull-up bar with palms facing away. Pull body up until chin clears bar.'')]"

definition bicep_curls :: exercise where
  "bicep_curls =
     [(''name'', ''Bicep Curls''),
      (''type'', ''strength''),
      (''muscle'', ''biceps''),
      (''equipment'', ''dumbbell''),
      (''difficulty'', ''beginner''),
      (''instructions'',
        ''Hold dumbbells at sides. Curl weights up by flexing biceps. Lower slowly to start.'')]"

definition tricep_dips :: exercise where
  "tricep_dips =
     [(''name'', ''Tricep Dips''),
      (''type'', ''strength''),
      (''muscle'', ''triceps''),
      (''equipment'', ''body_only''),
      (''difficulty'', ''beginner''),
      (''instructions'',
        ''Sit on chair edge, hands gripping seat. Lower body by bending arms, then push back up.'')]"

definition fallback_catalog :: "exercise list" where
  "fallback_catalog =
     [push_ups,
      squats,
      plank,
      lunges,
      burpees,
      mountain_climbers,
      deadlifts,
      pull_ups,
      bicep_curls,
      tricep_dips]"

text \<open>\<^verbatim>\<open>sub in s\<close> for strings.\<close>

fun contains :: "string \<Rightarrow> string \<Rightarrow> bool" where
  "contains [] sub = (sub = [])"
| "contains (c # cs) sub = (startswith (c # cs) sub \<or> contains cs sub)"

text \<open>
  The comprehension
  \<^verbatim>\<open>[ex for ex in exercises if muscle_group.lower() in ex['muscle'].lower()]\<close>.
\<close>

fun filter_by_muscle :: "string \<Rightarrow> exercise list \<Rightarrow> py_error + exercise list" where
  "filter_by_muscle muscle_group [] = Inr []"
| "filter_by_muscle muscle_group (ex # exs) =
     (case getitem ex ''muscle'' of
        Inl e \<Rightarrow> Inl e
      | Inr m \<Rightarrow>
          (case filter_by_muscle muscle_group exs of
             Inl e \<Rightarrow> Inl e
           | Inr kept \<Rightarrow>
               Inr (if contains (lower m) (lower muscle_group) then ex # kept else kept)))"

text \<open>\<^verbatim>\<open>if muscle_group:\<close> holds for a string that is neither \<^verbatim>\<open>None\<close> nor empty.\<close>

definition get_fallback_exercises :: "string option \<Rightarrow> py_error + exercise list" where
  "get_fallback_exercises muscle_group =
     (case muscle_group of
        None \<Rightarrow> Inr fallback_catalog
      | Some g \<Rightarrow> if g = [] then Inr fallback_catalog else filter_by_muscle g fallback_catalog)"

subsection \<open>\<^verbatim>\<open>fetch_exercises_ninja_api\<close>\<close>

text \<open>
  The outside world is a parameter: \<open>secrets_get key default\<close> is \<^verbatim>\<open>st.secrets.get\<close>,
  \<open>requests_get url headers params\<close> is \<^verbatim>\<open>requests.get\<close> (the timeout is one of its ways
  to raise), and the response carries its status code and what \<^verbatim>\<open>response.json()\<close> gives.
  Every \<open>Inl\<close> inside the \<^verbatim>\<open>try\<close> block goes to the \<^verbatim>\<open>except Exception\<close> handler, which
  returns \<^verbatim>\<open>get_fallback_exercises(muscle_group)\<close>.  The warnings shown to the user and
  the one-hour memoisation of \<^verbatim>\<open>st.cache_data\<close> are not part of the model.
\<close>

record http_response =
  status_code :: int
  json :: "py_error + exercise list"

definition ninja_url :: string where
  "ninja_url = ''https://api.api-ninjas.com/v1/exercises''"

text \<open>\<^verbatim>\<open>params = {}; if muscle_group: params['muscle'] = muscle_group.lower()\<close>.\<close>

definition request_params :: "string option \<Rightarrow> (string \<times> string) list" where
  "request_params muscle_group =
     (case muscle_group of
        None \<Rightarrow> []
      | Some g \<Rightarrow> if g = [] then [] else [(''muscle'', lower g)])"

definition fetch_exercises_ninja_api ::
  "(string \<Rightarrow> string \<Rightarrow> py_error + string) \<Rightarrow>
   (string \<Rightarrow> (string \<times> string) list \<Rightarrow> (string \<times> string) list \<Rightarrow> py_error + http_response) \<Rightarrow>
   string option \<Rightarrow> py_error + exercise list" where
  "fetch_exercises_ninja_api secrets_get requests_get muscle_group =
     (case secrets_get ''NINJA_API_KEY'' ''your_ninja_api_key_here'' of
        Inl e \<Rightarrow> get_fallback_exercises muscle_group
      | Inr api_key \<Rightarrow>
          (let headers = [(''X-Api-Key'', api_key)];
               params = request_params muscle_group
           in case requests_get ninja_url headers params of
                Inl e \<Rightarrow> get_fallback_exercises muscle_group
              | Inr response \<Rightarrow>
                  if status_code response = 200 then
                    (case json response of
                       Inl e \<Rightarrow> get_fallback_exercises muscle_group
                     | Inr rows \<Rightarrow> Inr rows)
                  else
                    (case get_fallback_exercises muscle_group of
                       Inl e \<Rightarrow> get_fallback_exercises muscle_group
                     | Inr rows \<Rightarrow> Inr rows)))"

section \<open>The de-duplication loop of \<^verbatim>\<open>main\<close>\<close>

text \<open>
  \<^verbatim>\<open>for focus in focus_areas: all_exercises.extend(fetch(focus))\<close>, with the fetch as a
  parameter.
\<close>

fun gather_exercises ::
  "(string option \<Rightarrow> py_error + exercise list) \<Rightarrow> string list \<Rightarrow> exercise list \<Rightarrow>
   py_error + exercise list" where
  "gather_exercises fetch [] all_exercises = Inr all_exercises"
| "gather_exercises fetch (focus_area # rest_areas) all_exercises =
     (case fetch (Some focus_area) of
        Inl e \<Rightarrow> Inl e
      | Inr exs \<Rightarrow> gather_exercises fetch rest_areas (all_exercises @ exs))"

text \<open>
  \<^verbatim>\<open>for ex in all_exercises: if ex['name'] not in seen_names: ...\<close>, threading the set of
  names seen and the list built so far.
\<close>

fun remove_duplicates ::
  "exercise list \<Rightarrow> string set \<Rightarrow> exercise list \<Rightarrow> py_error + exercise list" where
  "remove_duplicates [] seen_names unique_exercises = Inr unique_exercises"
| "remove_duplicates (ex # exs) seen_names unique_exercises =
     (case getitem ex ''name'' of
        Inl e \<Rightarrow> Inl e
      | Inr n \<Rightarrow>
          if n \<notin> seen_names then
            remove_duplicates exs (insert n seen_names) (unique_exercises @ [ex])
          else remove_duplicates exs seen_names unique_exercises)"

definition unique_exercises_of :: "exercise list \<Rightarrow> py_error + exercise list" where
  "unique_exercises_of all_exercises = remove_duplicates all_exercises {} []"

section \<open>\<^verbatim>\<open>WorkoutAI.generate_workout_plan\<close>\<close>

subsection \<open>More string methods\<close>

text \<open>\<^verbatim>\<open>str.strip()\<close> removes white space at both ends (the ASCII white space here).\<close>

definition is_space :: "char \<Rightarrow> bool" where
  "is_space c =
     (c \<in> set [CHR 0x09, CHR 0x0A, CHR 0x0B, CHR 0x0C, CHR 0x0D,
                CHR 0x1C, CHR 0x1D, CHR 0x1E, CHR 0x1F, CHR 0x20])"

definition strip :: "string \<Rightarrow> string" where
  "strip s = rev (dropWhile is_space (rev (dropWhile is_space s)))"

text \<open>\<^verbatim>\<open>s.find(sub)\<close> and \<^verbatim>\<open>s.rfind(sub)\<close>: the first and the last index, or -1.\<close>

fun find_from :: "string \<Rightarrow> string \<Rightarrow> int \<Rightarrow> int" where
  "find_from [] sub i = (if sub = [] then i else - 1)"
| "find_from (c # cs) sub i =
     (if startswith (c # cs) sub then i else find_from cs sub (i + 1))"

definition find_str :: "string \<Rightarrow> string \<Rightarrow> int" where
  "find_str s sub = find_from s sub 0"

fun rfind_from :: "string \<Rightarrow> string \<Rightarrow> int \<Rightarrow> int \<Rightarrow> int" where
  "rfind_from [] sub i found = (if sub = [] then i else found)"
| "rfind_from (c # cs) sub i found =
     rfind_from cs sub (i + 1) (if startswith (c # cs) sub then i else found)"

definition rfind_str :: "string \<Rightarrow> string \<Rightarrow> int" where
  "rfind_str s sub = rfind_from s sub 0 (- 1)"

text \<open>The slice \<^verbatim>\<open>s[a:b]\<close>: a negative index counts from the end, both are clamped.\<close>

definition slice :: "string \<Rightarrow> int \<Rightarrow> int \<Rightarrow> string" where
  "slice s a b =
     (let n = int (length s);
          lo = (if a < 0 then max (a + n) 0 else min a n);
          hi = (if b < 0 then max (b + n) 0 else min b n)
      in drop (nat lo) (take (nat hi) s))"

text \<open>\<^verbatim>\<open>sep.join(lines)\<close>.\<close>

fun join :: "string \<Rightarrow> string list \<Rightarrow> string" where
  "join sep [] = []"
| "join sep [l] = l"
| "join sep (l # ls) = l @ sep @ join sep ls"

subsection \<open>The requester\<close>

text \<open>One line of the exercise summary; the f-string reads the five fields in this order.\<close>

definition summary_line :: "exercise \<Rightarrow> py_error + string" where
  "summary_line ex =
     (case getitem ex ''name'' of Inl e \<Rightarrow> Inl e | Inr n \<Rightarrow>
     (case getitem ex ''type'' of Inl e \<Rightarrow> Inl e | Inr t \<Rightarrow>
     (case getitem ex ''muscle'' of Inl e \<Rightarrow> Inl e | Inr m \<Rightarrow>
     (case getitem ex ''difficulty'' of Inl e \<Rightarrow> Inl e | Inr d \<Rightarrow>
     (case getitem ex ''equipment'' of Inl e \<Rightarrow> Inl e | Inr q \<Rightarrow>
        Inr (''- '' @ n @ '': '' @ t @ '' exercise for '' @ m @ '', '' @
             ''difficulty: '' @ d @ '', equipment: '' @ q))))))"

fun summary_lines :: "exercise list \<Rightarrow> py_error + string list" where
  "summary_lines [] = Inr []"
| "summary_lines (ex # exs) =
     (case summary_line ex of
        Inl e \<Rightarrow> Inl e
      | Inr l \<Rightarrow> (case summary_lines exs of Inl e \<Rightarrow> Inl e | Inr ls \<Rightarrow> Inr (l # ls)))"

definition exercise_summary :: "exercise list \<Rightarrow> py_error + string" where
  "exercise_summary exs =
     (case summary_lines (take 20 exs) of
        Inl e \<Rightarrow> Inl e
      | Inr ls \<Rightarrow> Inr (join [CHR 0x0A] ls))"

text \<open>The clean-up of the response text: \<^verbatim>\<open>strip\<close>, then the removal of the code fences.\<close>

definition clean_plan_text :: "string \<Rightarrow> string" where
  "clean_plan_text text =
     (let plan_text = strip text in
      if startswith plan_text ''```json'' then
        strip (replace (replace plan_text ''```json'' []) ''```'' [])
      else if startswith plan_text ''```'' then strip (replace plan_text ''```'' [])
      else plan_text)"

text \<open>
  The plan that comes back is either the JSON value parsed from the service's answer or
  the fallback plan.
\<close>

datatype 'j plan_result = AIPlan 'j | FallbackPlan workout_plan

definition fallback_result ::
  "user_profile \<Rightarrow> exercise list \<Rightarrow> py_error + 'j plan_result" where
  "fallback_result profile exs =
     (case generate_fallback_plan profile exs of
        Inl e \<Rightarrow> Inl e
      | Inr plan \<Rightarrow> Inr (FallbackPlan plan))"

text \<open>
  The part of the \<^verbatim>\<open>try\<close> block after the response has arrived.  \<open>json_loads\<close> is
  \<^verbatim>\<open>json.loads\<close>.  In the first branch a parse error is raised inside the outer \<^verbatim>\<open>try\<close>
  and reaches \<^verbatim>\<open>except Exception\<close>; only the \<^verbatim>\<open>else\<close> branch has the inner \<^verbatim>\<open>try\<close>.
\<close>

definition parse_plan ::
  "(string \<Rightarrow> py_error + 'j) \<Rightarrow> user_profile \<Rightarrow> exercise list \<Rightarrow> string \<Rightarrow>
   py_error + 'j plan_result" where
  "parse_plan json_loads profile exs text =
     (let plan_text = clean_plan_text text;
          start_idx = find_str plan_text ''{'';
          end_idx = rfind_str plan_text ''}'' + 1
      in if start_idx \<noteq> - 1 \<and> end_idx \<noteq> - 1 then
           (case json_loads (slice plan_text start_idx end_idx) of
              Inl e \<Rightarrow> fallback_result profile exs
            | Inr plan \<Rightarrow> Inr (AIPlan plan))
         else
           (case json_loads plan_text of
              Inl e \<Rightarrow> fallback_result profile exs
            | Inr plan \<Rightarrow> Inr (AIPlan plan)))"

text \<open>
  \<open>model\<close> is \<^verbatim>\<open>self.model\<close>: \<open>None\<close> without an API key, otherwise the service, which
  gets the prompt (a text fixed by the profile and the exercise summary) and answers with
  \<^verbatim>\<open>response.text\<close> or raises.
\<close>

definition generate_workout_plan ::
  "(user_profile \<Rightarrow> string \<Rightarrow> py_error + string) option \<Rightarrow> (string \<Rightarrow> py_error + 'j) \<Rightarrow>
   user_profile \<Rightarrow> exercise list \<Rightarrow> py_error + 'j plan_result" where
  "generate_workout_plan model json_loads profile exs =
     (case model of
        None \<Rightarrow> fallback_result profile exs
      | Some generate_content \<Rightarrow>
          (case exercise_summary exs of
             Inl e \<Rightarrow> fallback_result profile exs
           | Inr summary \<Rightarrow>
               (case generate_content profile summary of
                  Inl e \<Rightarrow> fallback_result profile exs
                | Inr text \<Rightarrow> parse_plan json_loads profile exs text)))"

section \<open>Notions used in the statements\<close>

text \<open>The defaults of \<^verbatim>\<open>user_profile.get('experience', 'beginner')\<close> and
  \<^verbatim>\<open>user_profile.get('days_per_week', 3)\<close>.\<close>

definition profile_level :: "user_profile \<Rightarrow> string" where
  "profile_level profile = (case experience profile of None \<Rightarrow> ''beginner'' | Some x \<Rightarrow> x)"

definition profile_days :: "user_profile \<Rightarrow> int" where
  "profile_days profile = (case days_per_week profile of None \<Rightarrow> 3 | Some d \<Rightarrow> d)"

text \<open>An exercise record that has the two fields the fallback generator subscripts.\<close>

definition well_formed_record :: "exercise \<Rightarrow> bool" where
  "well_formed_record ex = (map_of ex ''difficulty'' \<noteq> None \<and> map_of ex ''name'' \<noteq> None)"

text \<open>Reading a decimal numeral back, to show that \<open>str_nat\<close> is injective.\<close>

definition digit_val :: "char \<Rightarrow> nat" where
  "digit_val c = (case map_of (zip ''0123456789'' [0..<10]) c of Some d \<Rightarrow> d | None \<Rightarrow> 0)"

definition decode_nat :: "string \<Rightarrow> nat" where
  "decode_nat s = foldl (\<lambda>a c. 10 * a + digit_val c) 0 s"

text \<open>The example of the specification: a beginner, three days a week, and the first five
  records of the local catalog.\<close>

definition example_profile :: user_profile where
  "example_profile =
     \<lparr>goal = None, experience = Some ''beginner'', days_per_week = Some 3, duration = None,
      equipment = None, focus_areas = None\<rparr>"

definition example_exercises :: "exercise list" where
  "example_exercises = [push_ups, squats, plank, lunges, burpees]"

text \<open>What the generator returns on the example.\<close>

definition beginner_entry :: "string \<Rightarrow> planned_exercise" where
  "beginner_entry n =
     \<lparr>name = n, sets = 2, reps = ''8-12'', rest = ''90 seconds'',
      notes' = ''Focus on proper form''\<rparr>"

definition example_day :: day_schedule where
  "example_day =
     \<lparr>focus = ''Full Body'',
      exercises = [beginner_entry ''Push-ups'', beginner_entry ''Squats'', beginner_entry ''Plank'']\<rparr>"

definition example_plan :: workout_plan where
  "example_plan =
     \<lparr>plan_name = ''Custom Beginner General Fitness Plan'',
      overview = ''A 3-day per week workout plan focused on general fitness'',
      weekly_schedule = [(''day_1'', example_day), (''day_2'', example_day), (''day_3'', example_day)],
      progression_tips =
        [''Increase weight/reps by 5-10% when you can complete all sets easily'',
         ''Focus on proper form before increasing intensity'',
         ''Rest at least one day between intense workouts''],
      success_tips =
        [''Stay consistent with your schedule'',
         ''Track your progress'',
         ''Listen to your body and rest when needed'',
         ''Stay hydrated and eat well'']\<rparr>"

text \<open>
  The de-duplication as the specification words it: an element is retained when no element
  before it has the same name.  It is compared with \<open>remove_duplicates\<close> below;
  \<open>keep_new\<close> is the same loop without the error cases, used in the proofs.
\<close>

definition name_of :: "exercise \<Rightarrow> string option" where
  "name_of ex = map_of ex ''name''"

definition spec_first_occurrences :: "exercise list \<Rightarrow> exercise list" where
  "spec_first_occurrences xs =
     map (nth xs)
       (filter (\<lambda>i. name_of (xs ! i) \<notin> name_of ` set (take i xs)) [0..<length xs])"

fun keep_new :: "string option set \<Rightarrow> exercise list \<Rightarrow> exercise list" where
  "keep_new seen [] = []"
| "keep_new seen (x # xs) =
     (if name_of x \<in> seen then keep_new seen xs else x # keep_new (insert (name_of x) seen) xs)"

text \<open>
  The local lookup as the specification words it: the catalog filtered by a
  case-insensitive substring match of the muscle group against the \<^verbatim>\<open>muscle\<close> field, or the
  whole catalog without a muscle group.
\<close>

definition muscle_matches :: "string \<Rightarrow> exercise \<Rightarrow> bool" where
  "muscle_matches muscle_group ex =
     (case map_of ex ''muscle'' of
        None \<Rightarrow> False
      | Some m \<Rightarrow> contains (lower m) (lower muscle_group))"

definition spec_catalog_filter :: "string option \<Rightarrow> exercise list" where
  "spec_catalog_filter muscle_group =
     (case muscle_group of
        None \<Rightarrow> fallback_catalog
      | Some g \<Rightarrow> filter (muscle_matches g) fallback_catalog)"

text \<open>
  A response text that is a JSON array of two objects, and a stand-in for \<^verbatim>\<open>json.loads\<close>
  that agrees with it on the two strings the requester can pass for this text: the whole text
  parses (to itself, here), the text between the first \<^verbatim>\<open>{\<close> and the last \<^verbatim>\<open>}\<close> does not.
\<close>

definition array_text :: string where
  \<open>array_text = ''[{"a": 1}, {"b": 2}]''\<close>

definition array_only_loads :: "string \<Rightarrow> py_error + string" where
  "array_only_loads s = (if s = array_text then Inr s else Inl JSONDecodeError)"

section \<open>Decimal numerals and the day keys\<close>

lemma digit_val_digit_char: "d < 10 \<Longrightarrow> digit_val (digit_char d) = d"
proof -
  assume "d < 10"
  then have "d \<in> {0,1,2,3,4,5,6,7,8,9}" by auto
  then show ?thesis
    by (auto simp: digit_val_def digit_char_def upt_conv_Cons)
qed

lemma decode_str_nat: "decode_nat (str_nat n) = n"
proof (induction n rule: str_nat.induct)
  case (1 n)
  show ?case
  proof (cases "n < 10")
    case True
    then show ?thesis by (simp add: str_nat.simps[of n] decode_nat_def digit_val_digit_char)
  next
    case False
    with 1 have "decode_nat (str_nat (n div 10)) = n div 10" by simp
    with False show ?thesis
      by (simp add: str_nat.simps[of n] decode_nat_def digit_val_digit_char)
  qed
qed

lemma str_nat_inj: "str_nat m = str_nat n \<Longrightarrow> m = n"
  by (metis decode_str_nat)

lemma str_nat_no_minus: "CHR ''-'' \<notin> set (str_nat n)"
proof (induction n rule: str_nat.induct)
  case (1 n)
  have d: "\<And>d. d < 10 \<Longrightarrow> digit_char d \<noteq> CHR ''-''"
  proof -
    fix d :: nat assume "d < 10"
    then have "d \<in> {0,1,2,3,4,5,6,7,8,9}" by auto
    then show "digit_char d \<noteq> CHR ''-''" by (auto simp: digit_char_def)
  qed
  show ?case
  proof (cases "n < 10")
    case True
    then show ?thesis using d[of n] by (simp add: str_nat.simps[of n])
  next
    case False
    with 1 have "CHR ''-'' \<notin> set (str_nat (n div 10))" by simp
    with False show ?thesis using d[of "n mod 10"] by (simp add: str_nat.simps[of n])
  qed
qed

lemma str_nat_nonempty: "str_nat n \<noteq> []"
  by (subst str_nat.simps) simp

lemma str_int_inj: "str_int i = str_int j \<Longrightarrow> i = j"
proof -
  assume eq: "str_int i = str_int j"
  have hd_nat: "\<And>n. hd (str_nat n) \<noteq> CHR ''-''"
    using str_nat_no_minus str_nat_nonempty by (metis hd_in_set)
  show ?thesis
  proof (cases "i < 0"; cases "j < 0")
    assume "i < 0" "j < 0"
    with eq have "nat (- i) = nat (- j)" by (auto simp: str_int_def dest: str_nat_inj)
    with \<open>i < 0\<close> \<open>j < 0\<close> show ?thesis by simp
  next
    assume "i < 0" "\<not> j < 0"
    with eq have "CHR ''-'' # str_nat (nat (- i)) = str_nat (nat j)" by (simp add: str_int_def)
    then have "hd (str_nat (nat j)) = CHR ''-''" by (metis list.sel(1))
    with hd_nat show ?thesis by blast
  next
    assume "\<not> i < 0" "j < 0"
    with eq have "CHR ''-'' # str_nat (nat (- j)) = str_nat (nat i)" by (simp add: str_int_def)
    then have "hd (str_nat (nat i)) = CHR ''-''" by (metis list.sel(1))
    with hd_nat show ?thesis by blast
  next
    assume "\<not> i < 0" "\<not> j < 0"
    with eq have "nat i = nat j" by (auto simp: str_int_def dest: str_nat_inj)
    with \<open>\<not> i < 0\<close> \<open>\<not> j < 0\<close> show ?thesis by simp
  qed
qed

lemma day_key_inj: "day_key i = day_key j \<Longrightarrow> i = j"
  by (simp add: day_key_def str_int_inj)

lemma distinct_day_keys: "distinct (map day_key [1..n])"
  by (simp add: distinct_map inj_on_def day_key_inj)

lemma day_keys_1_to_7:
  "map day_key [1..2] = [''day_1'', ''day_2'']"
  "map day_key [1..3] = [''day_1'', ''day_2'', ''day_3'']"
  "map day_key [1..4] = [''day_1'', ''day_2'', ''day_3'', ''day_4'']"
  "map day_key [1..5] = [''day_1'', ''day_2'', ''day_3'', ''day_4'', ''day_5'']"
  "map day_key [1..6] = [''day_1'', ''day_2'', ''day_3'', ''day_4'', ''day_5'', ''day_6'']"
  "map day_key [1..7] =
     [''day_1'', ''day_2'', ''day_3'', ''day_4'', ''day_5'', ''day_6'', ''day_7'']"
  by code_simp+

lemma day_keys_2_to_7:
  assumes "2 \<le> N" "N \<le> 7"
  shows "map day_key [1..N] =
         take (nat N) [''day_1'', ''day_2'', ''day_3'', ''day_4'', ''day_5'', ''day_6'', ''day_7'']"
proof -
  from assms have "N = 2 \<or> N = 3 \<or> N = 4 \<or> N = 5 \<or> N = 6 \<or> N = 7" by arith
  then show ?thesis
    by (elim disjE) (simp_all add: day_keys_1_to_7)
qed

section \<open>Dictionary assignment\<close>

lemma dict_set_new: "k \<notin> fst ` set kvs \<Longrightarrow> dict_set kvs k v = kvs @ [(k, v)]"
  by (induction kvs) auto

lemma set_dict_set: "set (dict_set kvs k v) \<subseteq> insert (k, v) (set kvs)"
  by (induction kvs) (auto split: if_splits)

section \<open>The fallback plan generator\<close>

lemma filter_by_difficulty_ok:
  "\<forall>ex\<in>set exs. map_of ex ''difficulty'' \<noteq> None \<Longrightarrow>
   filter_by_difficulty level exs =
     Inr (filter (\<lambda>ex. map_of ex ''difficulty'' = Some level \<or> level = ''advanced'') exs)"
  by (induction exs) (auto simp: getitem_def)

lemma filter_by_difficulty_raises:
  "ex \<in> set exs \<Longrightarrow> map_of ex ''difficulty'' = None \<Longrightarrow>
   filter_by_difficulty level exs = Inl (KeyError ''difficulty'')"
proof (induction exs)
  case Nil
  then show ?case by simp
next
  case (Cons x xs)
  show ?case
  proof (cases "map_of x ''difficulty''")
    case None
    then show ?thesis by (simp add: getitem_def)
  next
    case (Some d)
    with Cons.prems have "ex \<in> set xs" by auto
    with Cons have "filter_by_difficulty level xs = Inl (KeyError ''difficulty'')" by simp
    with Some show ?thesis by (simp add: getitem_def)
  qed
qed

lemma filter_by_difficulty_subset:
  "filter_by_difficulty level exs = Inr kept \<Longrightarrow> set kept \<subseteq> set exs"
  by (induction exs arbitrary: kept) (auto simp: getitem_def split: option.splits sum.splits if_splits)

lemma suitable_exercises_subset:
  "suitable_exercises level exs = Inr suitable \<Longrightarrow> set suitable \<subseteq> set exs"
  by (auto simp: suitable_exercises_def split: sum.splits if_splits
           dest: filter_by_difficulty_subset)

lemma planned_exercises_ok:
  "\<forall>ex\<in>set sel. map_of ex ''name'' \<noteq> None \<Longrightarrow> \<exists>pes. planned_exercises srr sel = Inr pes"
  by (induction sel) (auto simp: getitem_def)

lemma planned_exercises_triple:
  "planned_exercises srr sel = Inr pes \<Longrightarrow> pe \<in> set pes \<Longrightarrow>
   sets pe = fst srr \<and> reps pe = fst (snd srr) \<and> rest pe = snd (snd srr)"
  by (induction sel arbitrary: pes) (auto split: sum.splits)

lemma planned_exercises_names:
  "planned_exercises srr sel = Inr pes \<Longrightarrow>
   map (\<lambda>pe. Some (name pe)) pes = map (\<lambda>ex. map_of ex ''name'') sel"
  by (induction sel arbitrary: pes) (auto simp: getitem_def split: sum.splits option.splits)

lemma daily_workouts_keys:
  "daily_workouts level suitable days schedule = Inr schedule' \<Longrightarrow>
   distinct (map day_key days) \<Longrightarrow>
   set (map day_key days) \<inter> fst ` set schedule = {} \<Longrightarrow>
   map fst schedule' = map fst schedule @ map day_key days"
proof (induction days arbitrary: schedule)
  case Nil
  then show ?case by simp
next
  case (Cons day days)
  from Cons.prems(1) obtain pes where
    pes: "planned_exercises (sets_reps_rest level) (take 4 suitable) = Inr pes"
    and rec: "daily_workouts level suitable days
        (dict_set schedule (day_key day)
           \<lparr>focus = (if day \<le> 3 then ''Full Body'' else ''Active Recovery''), exercises = pes\<rparr>)
        = Inr schedule'"
    by (auto split: sum.splits)
  let ?v = "\<lparr>focus = (if day \<le> 3 then ''Full Body'' else ''Active Recovery''), exercises = pes\<rparr>"
  from Cons.prems(3) have new: "day_key day \<notin> fst ` set schedule" by auto
  then have ds: "dict_set schedule (day_key day) ?v = schedule @ [(day_key day, ?v)]"
    by (rule dict_set_new)
  have "map fst schedule' = map fst (schedule @ [(day_key day, ?v)]) @ map day_key days"
  proof (rule Cons.IH)
    show "daily_workouts level suitable days (schedule @ [(day_key day, ?v)]) = Inr schedule'"
      using rec ds by simp
    show "distinct (map day_key days)" using Cons.prems(2) by simp
    show "set (map day_key days) \<inter> fst ` set (schedule @ [(day_key day, ?v)]) = {}"
      using Cons.prems(2,3) by auto
  qed
  then show ?case by simp
qed

lemma daily_workouts_exact:
  "planned_exercises (sets_reps_rest level) (take 4 suitable) = Inr pes \<Longrightarrow>
   distinct (map day_key days) \<Longrightarrow>
   set (map day_key days) \<inter> fst ` set schedule = {} \<Longrightarrow>
   daily_workouts level suitable days schedule =
     Inr (schedule @
          map (\<lambda>day. (day_key day,
                 \<lparr>focus = (if day \<le> 3 then ''Full Body'' else ''Active Recovery''),
                  exercises = pes\<rparr>)) days)"
proof (induction days arbitrary: schedule)
  case Nil
  then show ?case by simp
next
  case (Cons day days)
  let ?v = "\<lparr>focus = (if day \<le> 3 then ''Full Body'' else ''Active Recovery''), exercises = pes\<rparr>"
  from Cons.prems(3) have "day_key day \<notin> fst ` set schedule" by auto
  then have ds: "dict_set schedule (day_key day) ?v = schedule @ [(day_key day, ?v)]"
    by (rule dict_set_new)
  have "daily_workouts level suitable days (schedule @ [(day_key day, ?v)]) =
     Inr ((schedule @ [(day_key day, ?v)]) @
          map (\<lambda>day. (day_key day,
                 \<lparr>focus = (if day \<le> 3 then ''Full Body'' else ''Active Recovery''),
                  exercises = pes\<rparr>)) days)"
  proof (rule Cons.IH)
    show "planned_exercises (sets_reps_rest level) (take 4 suitable) = Inr pes"
      by (rule Cons.prems(1))
    show "distinct (map day_key days)" using Cons.prems(2) by simp
    show "set (map day_key days) \<inter> fst ` set (schedule @ [(day_key day, ?v)]) = {}"
      using Cons.prems(2,3) by auto
  qed
  with Cons.prems(1) ds show ?case by simp
qed

lemma daily_workouts_values:
  "daily_workouts level suitable days schedule = Inr schedule' \<Longrightarrow>
   (k, d) \<in> set schedule' \<Longrightarrow>
   (k, d) \<in> set schedule \<or>
   planned_exercises (sets_reps_rest level) (take 4 suitable) = Inr (exercises d)"
proof (induction days arbitrary: schedule)
  case Nil
  then show ?case by simp
next
  case (Cons day days)
  from Cons.prems(1) obtain pes where
    pes: "planned_exercises (sets_reps_rest level) (take 4 suitable) = Inr pes"
    and rec: "daily_workouts level suitable days
        (dict_set schedule (day_key day)
           \<lparr>focus = (if day \<le> 3 then ''Full Body'' else ''Active Recovery''), exercises = pes\<rparr>)
        = Inr schedule'"
    by (auto split: sum.splits)
  let ?v = "\<lparr>focus = (if day \<le> 3 then ''Full Body'' else ''Active Recovery''), exercises = pes\<rparr>"
  from Cons.IH[OF rec Cons.prems(2)] show ?case
  proof
    assume "(k, d) \<in> set (dict_set schedule (day_key day) ?v)"
    then have "(k, d) \<in> insert (day_key day, ?v) (set schedule)"
      using set_dict_set[of schedule "day_key day" ?v] by (rule subsetD[rotated])
    then have "(k, d) = (day_key day, ?v) \<or> (k, d) \<in> set schedule" by simp
    then show ?thesis
    proof
      assume "(k, d) = (day_key day, ?v)"
      then have "exercises d = pes" by simp
      with pes show ?thesis by simp
    next
      assume "(k, d) \<in> set schedule"
      then show ?thesis by simp
    qed
  next
    assume "planned_exercises (sets_reps_rest level) (take 4 suitable) = Inr (exercises d)"
    then show ?thesis by simp
  qed
qed

lemma fallback_plan_unfold:
  "generate_fallback_plan profile exs = Inr plan \<Longrightarrow>
   \<exists>suitable schedule.
     suitable_exercises (profile_level profile) exs = Inr suitable \<and>
     daily_workouts (profile_level profile) suitable [1..profile_days profile] [] = Inr schedule \<and>
     weekly_schedule plan = schedule \<and>
     progression_tips plan = fallback_progression_tips \<and>
     success_tips plan = fallback_success_tips"
  by (auto simp: generate_fallback_plan_def profile_level_def profile_days_def Let_def
           split: sum.splits)

lemma fallback_returns:
  assumes "\<forall>ex\<in>set exs. well_formed_record ex"
  shows "\<exists>plan. generate_fallback_plan profile exs = Inr plan"
proof -
  let ?level = "profile_level profile"
  from assms have "\<forall>ex\<in>set exs. map_of ex ''difficulty'' \<noteq> None"
    by (simp add: well_formed_record_def)
  then obtain suitable where s: "suitable_exercises ?level exs = Inr suitable"
    by (simp add: suitable_exercises_def filter_by_difficulty_ok)
  then have "set suitable \<subseteq> set exs" by (rule suitable_exercises_subset)
  then have "set (take 4 suitable) \<subseteq> set exs" using set_take_subset by fastforce
  with assms have "\<forall>ex\<in>set (take 4 suitable). map_of ex ''name'' \<noteq> None"
    by (auto simp: well_formed_record_def)
  then obtain pes where
    "planned_exercises (sets_reps_rest ?level) (take 4 suitable) = Inr pes"
    using planned_exercises_ok by blast
  then have "daily_workouts ?level suitable [1..profile_days profile] [] =
     Inr ([] @ map (\<lambda>day. (day_key day,
                 \<lparr>focus = (if day \<le> 3 then ''Full Body'' else ''Active Recovery''),
                  exercises = pes\<rparr>)) [1..profile_days profile])"
    by (rule daily_workouts_exact) (simp_all add: distinct_day_keys)
  with s show ?thesis
    by (simp add: generate_fallback_plan_def profile_level_def profile_days_def Let_def)
qed

lemma schedule_keys_of_plan:
  assumes "generate_fallback_plan profile exs = Inr plan"
  shows "map fst (weekly_schedule plan) = map day_key [1..profile_days profile]"
proof -
  from fallback_plan_unfold[OF assms] obtain suitable where
    "daily_workouts (profile_level profile) suitable [1..profile_days profile] []
       = Inr (weekly_schedule plan)"
    by auto
  then show ?thesis
    using daily_workouts_keys[of "profile_level profile" suitable "[1..profile_days profile]" "[]"
        "weekly_schedule plan"]
    by (simp add: distinct_day_keys)
qed

lemma fallback_raises_without_difficulty:
  assumes "ex \<in> set exs" "map_of ex ''difficulty'' = None"
  shows "generate_fallback_plan profile exs = Inl (KeyError ''difficulty'')"
  using filter_by_difficulty_raises[OF assms]
  by (simp add: generate_fallback_plan_def suitable_exercises_def Let_def)

lemma fallback_days:
  assumes "generate_fallback_plan profile exs = Inr plan" "(k, d) \<in> set (weekly_schedule plan)"
  shows "\<exists>suitable. suitable_exercises (profile_level profile) exs = Inr suitable \<and>
           planned_exercises (sets_reps_rest (profile_level profile)) (take 4 suitable)
             = Inr (exercises d)"
proof -
  from fallback_plan_unfold[OF assms(1)] obtain suitable where
    s: "suitable_exercises (profile_level profile) exs = Inr suitable" and
    w: "daily_workouts (profile_level profile) suitable [1..profile_days profile] []
       = Inr (weekly_schedule plan)"
    by auto
  from daily_workouts_values[OF w assms(2)] s show ?thesis by simp
qed

lemma catalog_fields [simp]:
  "map_of push_ups ''name'' = Some ''Push-ups''" "map_of push_ups ''difficulty'' = Some ''beginner''"
  "map_of squats ''name'' = Some ''Squats''" "map_of squats ''difficulty'' = Some ''beginner''"
  "map_of plank ''name'' = Some ''Plank''" "map_of plank ''difficulty'' = Some ''beginner''"
  "map_of lunges ''name'' = Some ''Lunges''" "map_of lunges ''difficulty'' = Some ''intermediate''"
  "map_of burpees ''name'' = Some ''Burpees''" "map_of burpees ''difficulty'' = Some ''intermediate''"
  by (simp_all add: push_ups_def squats_def plank_def lunges_def burpees_def)

lemma planned_exercises_raises:
  "ex \<in> set sel \<Longrightarrow> map_of ex ''name'' = None \<Longrightarrow>
   planned_exercises srr sel = Inl (KeyError ''name'')"
proof (induction sel)
  case Nil
  then show ?case by simp
next
  case (Cons x xs)
  show ?case
  proof (cases "map_of x ''name''")
    case None
    then show ?thesis by (simp add: getitem_def)
  next
    case (Some n)
    with Cons.prems have "ex \<in> set xs" by auto
    with Cons have "planned_exercises srr xs = Inl (KeyError ''name'')" by simp
    with Some show ?thesis by (simp add: getitem_def)
  qed
qed

lemma fallback_raises_without_name:
  assumes "suitable_exercises (profile_level profile) exs = Inr suitable"
      and "ex \<in> set (take 4 suitable)" and "map_of ex ''name'' = None"
      and "1 \<le> profile_days profile"
  shows "generate_fallback_plan profile exs = Inl (KeyError ''name'')"
proof -
  from assms(4) have "[1..profile_days profile] = 1 # [2..profile_days profile]"
    by (simp add: upto_rec1)
  moreover from planned_exercises_raises[OF assms(2,3)]
  have "planned_exercises (sets_reps_rest (profile_level profile)) (take 4 suitable)
          = Inl (KeyError ''name'')" .
  ultimately have "daily_workouts (profile_level profile) suitable [1..profile_days profile] []
       = Inl (KeyError ''name'')"
    by simp
  with assms(1) show ?thesis
    by (simp add: generate_fallback_plan_def Let_def profile_level_def profile_days_def)
qed

lemma fallback_empty:
  "\<exists>plan. generate_fallback_plan profile [] = Inr plan \<and>
     weekly_schedule plan =
       map (\<lambda>day. (day_key day,
              \<lparr>focus = (if day \<le> 3 then ''Full Body'' else ''Active Recovery''),
               exercises = []\<rparr>))
         [1..(case days_per_week profile of None \<Rightarrow> 3 | Some n \<Rightarrow> n)]"
proof -
  have "daily_workouts (profile_level profile) [] [1..profile_days profile] [] =
     Inr ([] @ map (\<lambda>day. (day_key day,
                 \<lparr>focus = (if day \<le> 3 then ''Full Body'' else ''Active Recovery''),
                  exercises = []\<rparr>)) [1..profile_days profile])"
    by (rule daily_workouts_exact) (simp_all add: distinct_day_keys)
  then show ?thesis
    by (simp add: generate_fallback_plan_def Let_def suitable_exercises_def
        profile_level_def profile_days_def)
qed

lemma suitable_exercises_has_difficulty:
  assumes "suitable_exercises level exs = Inr suitable"
  shows "\<forall>ex\<in>set exs. map_of ex ''difficulty'' \<noteq> None"
proof (rule ccontr)
  assume "\<not> (\<forall>ex\<in>set exs. map_of ex ''difficulty'' \<noteq> None)"
  then obtain ex where "ex \<in> set exs" "map_of ex ''difficulty'' = None" by auto
  then have "filter_by_difficulty level exs = Inl (KeyError ''difficulty'')"
    by (rule filter_by_difficulty_raises)
  with assms show False by (simp add: suitable_exercises_def)
qed

lemma suitable_exercises_eq:
  assumes "\<forall>ex\<in>set exs. map_of ex ''difficulty'' \<noteq> None"
  shows "suitable_exercises level exs =
           Inr (let filtered = (if level = ''advanced'' then exs
                                else filter (\<lambda>ex. map_of ex ''difficulty'' = Some level) exs)
                in if filtered = [] then exs else filtered)"
  using filter_by_difficulty_ok[OF assms, of level]
  by (simp add: suitable_exercises_def Let_def)

subsection \<open>The generator on the example\<close>

lemma upto_1_3: "[1..3] = [1, 2, 3]"
  by code_simp

lemma upto_1_2_7: "[1..2] = [1, 2]" "[1..7] = [1, 2, 3, 4, 5, 6, 7]"
  by code_simp+

lemma title_beginner: "title ''beginner'' = ''Beginner''"
  by (simp add: title_def is_lower_def is_upper_def to_upper_def to_lower_def
      ascii_lowercase_def ascii_uppercase_def)

lemma title_general_fitness:
  "title ''general fitness'' = ''General Fitness''"
  "replace ''general_fitness'' ''_'' '' '' = ''general fitness''"
  by (simp_all add: title_def replace_def is_lower_def is_upper_def to_upper_def to_lower_def
      ascii_lowercase_def ascii_uppercase_def)

lemma example_suitable:
  "suitable_exercises ''beginner'' example_exercises = Inr [push_ups, squats, plank]"
  by (simp add: suitable_exercises_def example_exercises_def getitem_def)

lemma example_planned:
  "planned_exercises (sets_reps_rest ''beginner'') (take 4 [push_ups, squats, plank]) =
     Inr [beginner_entry ''Push-ups'', beginner_entry ''Squats'', beginner_entry ''Plank'']"
  by (simp add: sets_reps_rest_def getitem_def beginner_entry_def)

lemma example_schedule:
  "daily_workouts ''beginner'' [push_ups, squats, plank] [1, 2, 3] [] =
     Inr [(''day_1'', example_day), (''day_2'', example_day), (''day_3'', example_day)]"
  using example_planned
  by (simp add: example_day_def day_key_def str_int_def str_nat.simps digit_char_def)

lemma example_plan_eval:
  "generate_fallback_plan example_profile example_exercises = Inr example_plan"
  by (simp add: generate_fallback_plan_def Let_def example_profile_def example_suitable upto_1_3
      example_schedule title_beginner title_general_fitness example_plan_def
      fallback_progression_tips_def fallback_success_tips_def str_int_def str_nat.simps
      digit_char_def del: daily_workouts.simps)

subsection \<open>The claims about the fallback plan generator\<close>

text \<open>
  C1. With \<^verbatim>\<open>days_per_week = N\<close> between 2 and 7, the fallback generator returns a plan
  whenever every record has the fields it reads, and the schedule of every plan it returns
  has exactly \<open>N\<close> entries, keyed \<^verbatim>\<open>day_1\<close> to \<^verbatim>\<open>day_N\<close> in this order.
\<close>

theorem fallback_schedule_keys:
  assumes "days_per_week profile = Some N" and "2 \<le> N" and "N \<le> 7"
  shows "(list_all well_formed_record exs \<longrightarrow>
            (\<exists>plan. generate_fallback_plan profile exs = Inr plan)) \<and>
         (\<forall>plan. generate_fallback_plan profile exs = Inr plan \<longrightarrow>
            length (weekly_schedule plan) = nat N \<and>
            map fst (weekly_schedule plan) =
              take (nat N)
                [''day_1'', ''day_2'', ''day_3'', ''day_4'', ''day_5'', ''day_6'', ''day_7''])"
proof (intro conjI impI allI)
  assume "list_all well_formed_record exs"
  then show "\<exists>plan. generate_fallback_plan profile exs = Inr plan"
    by (simp add: fallback_returns list_all_iff)
next
  fix plan assume g: "generate_fallback_plan profile exs = Inr plan"
  from assms(1) have "profile_days profile = N" by (simp add: profile_days_def)
  with schedule_keys_of_plan[OF g]
  have k: "map fst (weekly_schedule plan) = map day_key [1..N]" by simp
  with day_keys_2_to_7[OF assms(2,3)]
  show "map fst (weekly_schedule plan) =
      take (nat N) [''day_1'', ''day_2'', ''day_3'', ''day_4'', ''day_5'', ''day_6'', ''day_7'']"
    by simp
  from k have "length (weekly_schedule plan) = length [1..N]"
    by (metis length_map)
  with assms(2) show "length (weekly_schedule plan) = nat N" by simp
qed

theorem fallback_schedule_keys_witness:
  "\<exists>plan. generate_fallback_plan example_profile example_exercises = Inr plan \<and>
          length (weekly_schedule plan) = 3 \<and>
          map fst (weekly_schedule plan) = [''day_1'', ''day_2'', ''day_3'']"
proof -
  have "list_all well_formed_record example_exercises"
    by (simp add: example_exercises_def well_formed_record_def)
  moreover have "days_per_week example_profile = Some 3"
    by (simp add: example_profile_def)
  ultimately show ?thesis
    using fallback_schedule_keys[of example_profile 3 example_exercises] by auto
qed

text \<open>
  C2. Every planned exercise of a fallback plan carries the sets, repetitions and rest of
  the table row of the profile's experience: beginner, intermediate, and one row for
  advanced and every other value.  An absent experience counts as beginner.
\<close>

theorem fallback_sets_reps_rest:
  assumes "generate_fallback_plan profile exs = Inr plan"
      and "(k, d) \<in> set (weekly_schedule plan)"
      and "pe \<in> set (exercises d)"
  shows "(sets pe, reps pe, rest pe) =
           (case experience profile of
              None \<Rightarrow> (2, ''8-12'', ''90 seconds'')
            | Some x \<Rightarrow>
                if x = ''beginner'' then (2, ''8-12'', ''90 seconds'')
                else if x = ''intermediate'' then (3, ''10-15'', ''60 seconds'')
                else (3, ''12-20'', ''45 seconds''))"
proof -
  from fallback_days[OF assms(1,2)] obtain suitable where
    "planned_exercises (sets_reps_rest (profile_level profile)) (take 4 suitable)
       = Inr (exercises d)"
    by auto
  from planned_exercises_triple[OF this assms(3)]
  have "(sets pe, reps pe, rest pe) = sets_reps_rest (profile_level profile)"
    by (simp add: prod_eq_iff)
  then show ?thesis
    by (simp add: sets_reps_rest_def profile_level_def split: option.splits)
qed

theorem fallback_sets_reps_rest_witness:
  "generate_fallback_plan example_profile example_exercises = Inr example_plan \<and>
   (''day_1'', example_day) \<in> set (weekly_schedule example_plan) \<and>
   beginner_entry ''Squats'' \<in> set (exercises example_day) \<and>
   (sets (beginner_entry ''Squats''), reps (beginner_entry ''Squats''),
    rest (beginner_entry ''Squats'')) = (2, ''8-12'', ''90 seconds'')"
proof -
  have d: "(''day_1'', example_day) \<in> set (weekly_schedule example_plan)"
    by (simp add: example_plan_def)
  have e: "beginner_entry ''Squats'' \<in> set (exercises example_day)"
    by (simp add: example_day_def)
  from fallback_sets_reps_rest[OF example_plan_eval d e] example_plan_eval d e
  show ?thesis by (simp add: example_profile_def)
qed

text \<open>
  C3. The suitable list exists when every record has a difficulty, and whenever it exists
  it is the input filtered to the records whose difficulty equals the experience, or the
  whole input for the experience \<^verbatim>\<open>advanced\<close>; when that filter leaves nothing, it is the
  whole input.  Every day of a returned plan lists the names of the first four suitable
  records.
\<close>

theorem suitable_exercises_filter:
  "((\<forall>ex\<in>set exs. map_of ex ''difficulty'' \<noteq> None) \<longrightarrow>
      (\<exists>suitable. suitable_exercises level exs = Inr suitable)) \<and>
   (\<forall>suitable.
      suitable_exercises level exs = Inr suitable \<longrightarrow>
      suitable =
        (let filtered = (if level = ''advanced'' then exs
                         else filter (\<lambda>ex. map_of ex ''difficulty'' = Some level) exs)
         in if filtered = [] then exs else filtered)) \<and>
   (\<forall>plan k d.
      generate_fallback_plan profile exs = Inr plan \<and> (k, d) \<in> set (weekly_schedule plan) \<longrightarrow>
      (\<exists>suitable.
         suitable_exercises (case experience profile of None \<Rightarrow> ''beginner'' | Some x \<Rightarrow> x) exs
           = Inr suitable \<and>
         map (\<lambda>pe. Some (name pe)) (exercises d) =
           map (\<lambda>ex. map_of ex ''name'') (take 4 suitable)))"
proof (intro conjI allI impI)
  assume "\<forall>ex\<in>set exs. map_of ex ''difficulty'' \<noteq> None"
  then show "\<exists>suitable. suitable_exercises level exs = Inr suitable"
    by (simp add: suitable_exercises_eq)
next
  fix suitable
  assume s: "suitable_exercises level exs = Inr suitable"
  from suitable_exercises_eq[OF suitable_exercises_has_difficulty[OF s], of level] s
  show "suitable =
        (let filtered = (if level = ''advanced'' then exs
                         else filter (\<lambda>ex. map_of ex ''difficulty'' = Some level) exs)
         in if filtered = [] then exs else filtered)"
    by simp
next
  fix plan k d
  assume a: "generate_fallback_plan profile exs = Inr plan \<and> (k, d) \<in> set (weekly_schedule plan)"
  then obtain suitable where
    s: "suitable_exercises (profile_level profile) exs = Inr suitable" and
    p: "planned_exercises (sets_reps_rest (profile_level profile)) (take 4 suitable)
             = Inr (exercises d)"
    using fallback_days by blast
  from planned_exercises_names[OF p] s
  show "\<exists>suitable.
               suitable_exercises (case experience profile of None \<Rightarrow> ''beginner'' | Some x \<Rightarrow> x) exs
                 = Inr suitable \<and>
               map (\<lambda>pe. Some (name pe)) (exercises d) =
                 map (\<lambda>ex. map_of ex ''name'') (take 4 suitable)"
    by (auto simp: profile_level_def)
qed

theorem suitable_exercises_filter_witness:
  "suitable_exercises ''beginner'' example_exercises = Inr [push_ups, squats, plank] \<and>
   suitable_exercises ''advanced'' example_exercises = Inr example_exercises \<and>
   suitable_exercises ''expert'' example_exercises = Inr example_exercises"
proof -
  have h: "\<forall>ex\<in>set example_exercises. map_of ex ''difficulty'' \<noteq> None"
    by (simp add: example_exercises_def)
  have "\<exists>s. suitable_exercises ''beginner'' example_exercises = Inr s \<and>
          s = (let filtered = (if ''beginner'' = ''advanced'' then example_exercises
                 else filter (\<lambda>ex. map_of ex ''difficulty'' = Some ''beginner'') example_exercises)
               in if filtered = [] then example_exercises else filtered)"
    using suitable_exercises_filter[of example_exercises "''beginner''" example_profile] h
    by blast
  then have 1: "suitable_exercises ''beginner'' example_exercises = Inr [push_ups, squats, plank]"
    by (simp add: example_exercises_def)
  have "\<exists>s. suitable_exercises ''advanced'' example_exercises = Inr s \<and>
          s = (let filtered = (if ''advanced'' = ''advanced'' then example_exercises
                 else filter (\<lambda>ex. map_of ex ''difficulty'' = Some ''advanced'') example_exercises)
               in if filtered = [] then example_exercises else filtered)"
    using suitable_exercises_filter[of example_exercises "''advanced''" example_profile] h
    by blast
  then have 2: "suitable_exercises ''advanced'' example_exercises = Inr example_exercises"
    by (auto simp: Let_def)
  have "\<exists>s. suitable_exercises ''expert'' example_exercises = Inr s \<and>
          s = (let filtered = (if ''expert'' = ''advanced'' then example_exercises
                 else filter (\<lambda>ex. map_of ex ''difficulty'' = Some ''expert'') example_exercises)
               in if filtered = [] then example_exercises else filtered)"
    using suitable_exercises_filter[of example_exercises "''expert''" example_profile] h
    by blast
  then have 3: "suitable_exercises ''expert'' example_exercises = Inr example_exercises"
    by (simp add: example_exercises_def)
  from 1 2 3 show ?thesis by simp
qed

text \<open>
  C5, as stated: the generator never raises, whatever its input.  It does raise on a record
  without a \<^verbatim>\<open>difficulty\<close> field.
\<close>

theorem fallback_total_counterexample:
  "generate_fallback_plan example_profile [[(''name'', ''Jumping Jacks''), (''muscle'', ''calves'')]]
     = Inl (KeyError ''difficulty'')"
  by (rule fallback_raises_without_difficulty[where ex = "[(''name'', ''Jumping Jacks''), (''muscle'', ''calves'')]"])
    simp_all

text \<open>
  C5, amended: on every profile and every list of records that have a \<^verbatim>\<open>difficulty\<close> and a
  \<^verbatim>\<open>name\<close> field the generator returns a plan, for every number of days; on the empty list
  the plan has one entry per day, each with an empty exercise list.
\<close>

theorem fallback_total_on_well_formed:
  assumes "list_all well_formed_record exs"
  shows "(\<exists>plan. generate_fallback_plan profile exs = Inr plan) \<and>
         (\<exists>plan. generate_fallback_plan profile [] = Inr plan \<and>
            weekly_schedule plan =
              map (\<lambda>day. (day_key day,
                     \<lparr>focus = (if day \<le> 3 then ''Full Body'' else ''Active Recovery''),
                      exercises = []\<rparr>))
                [1..(case days_per_week profile of None \<Rightarrow> 3 | Some n \<Rightarrow> n)])"
  using assms fallback_returns[of exs profile] fallback_empty[of profile]
  by (simp add: list_all_iff)

theorem fallback_total_on_well_formed_witness:
  "(\<exists>plan. generate_fallback_plan (example_profile\<lparr>days_per_week := Some 2\<rparr>) example_exercises
             = Inr plan) \<and>
   (\<exists>plan. generate_fallback_plan (example_profile\<lparr>days_per_week := Some 7\<rparr>) [] = Inr plan \<and>
      map fst (weekly_schedule plan) =
        [''day_1'', ''day_2'', ''day_3'', ''day_4'', ''day_5'', ''day_6'', ''day_7''] \<and>
      map (\<lambda>kd. exercises (snd kd)) (weekly_schedule plan) = [[], [], [], [], [], [], []])"
proof -
  have h: "list_all well_formed_record example_exercises"
    by (simp add: example_exercises_def well_formed_record_def)
  have k: "map day_key [1, 2, 3, 4, 5, 6, 7] =
      [''day_1'', ''day_2'', ''day_3'', ''day_4'', ''day_5'', ''day_6'', ''day_7'']"
    using day_keys_1_to_7(6) by (simp add: upto_1_2_7)
  from fallback_total_on_well_formed[OF h, of "example_profile\<lparr>days_per_week := Some 2\<rparr>"]
       fallback_total_on_well_formed[OF h, of "example_profile\<lparr>days_per_week := Some 7\<rparr>"]
  show ?thesis
    by (auto simp: upto_1_2_7 k[simplified] comp_def)
qed

text \<open>
  C6, as stated: on the example every day lists Push-ups, Squats, Plank and Lunges.  Lunges
  is an intermediate exercise in the catalog and the filter for a beginner drops it.
\<close>

theorem fallback_example_counterexample:
  "\<not> (\<exists>plan. generate_fallback_plan example_profile example_exercises = Inr plan \<and>
         (\<forall>(k, d)\<in>set (weekly_schedule plan).
            map name (exercises d) = [''Push-ups'', ''Squats'', ''Plank'', ''Lunges'']))"
  by (simp add: example_plan_eval example_plan_def example_day_def beginner_entry_def)

text \<open>
  C6, amended: on the example the plan has the three days \<^verbatim>\<open>day_1\<close> to \<^verbatim>\<open>day_3\<close>, all
  with focus Full Body, and every day lists exactly Push-ups, Squats and Plank, in this
  order, each with 2 sets, 8-12 repetitions and 90 seconds of rest.
\<close>

theorem fallback_example:
  "\<exists>plan. generate_fallback_plan example_profile example_exercises = Inr plan \<and>
     map fst (weekly_schedule plan) = [''day_1'', ''day_2'', ''day_3''] \<and>
     map (\<lambda>kd. focus (snd kd)) (weekly_schedule plan) = [''Full Body'', ''Full Body'', ''Full Body''] \<and>
     map (\<lambda>kd. map (\<lambda>pe. (name pe, sets pe, reps pe, rest pe)) (exercises (snd kd)))
         (weekly_schedule plan) =
       replicate 3
         [(''Push-ups'', 2, ''8-12'', ''90 seconds''),
          (''Squats'', 2, ''8-12'', ''90 seconds''),
          (''Plank'', 2, ''8-12'', ''90 seconds'')]"
  by (simp add: example_plan_eval example_plan_def example_day_def beginner_entry_def
      numeral_3_eq_3)

text \<open>
  C7, as stated: both tip lists have four entries.  The list of progression tips has three.
\<close>

theorem fallback_tips_counterexample:
  "\<not> (\<exists>plan. generate_fallback_plan example_profile example_exercises = Inr plan \<and>
         length (progression_tips plan) = 4 \<and> length (success_tips plan) = 4)"
  by (simp add: example_plan_eval example_plan_def)

text \<open>
  C7, amended: the progression tips and the success tips of every fallback plan are the
  same fixed lists, of three and of four entries, whatever the profile and the exercises.
\<close>

theorem fallback_tips_constant:
  assumes "generate_fallback_plan profile exs = Inr plan"
  shows "progression_tips plan =
           [''Increase weight/reps by 5-10% when you can complete all sets easily'',
            ''Focus on proper form before increasing intensity'',
            ''Rest at least one day between intense workouts''] \<and>
         success_tips plan =
           [''Stay consistent with your schedule'',
            ''Track your progress'',
            ''Listen to your body and rest when needed'',
            ''Stay hydrated and eat well''] \<and>
         length (progression_tips plan) = 3 \<and> length (success_tips plan) = 4"
  using fallback_plan_unfold[OF assms]
  by (auto simp: fallback_progression_tips_def fallback_success_tips_def)

theorem fallback_tips_constant_witness:
  "generate_fallback_plan example_profile example_exercises = Inr example_plan \<and>
   length (progression_tips example_plan) = 3 \<and> length (success_tips example_plan) = 4"
  using fallback_tips_constant[OF example_plan_eval] example_plan_eval by simp

text \<open>
  C10. The generator returns normally on every list whose records all have a
  \<^verbatim>\<open>difficulty\<close> and a \<^verbatim>\<open>name\<close> field; with an experience other than \<^verbatim>\<open>advanced\<close>, a
  record without \<^verbatim>\<open>difficulty\<close> makes it raise the key error; and, once there is a day to
  plan, so does a selected record without \<^verbatim>\<open>name\<close>.
\<close>

theorem fallback_reads_difficulty_and_name:
  "(list_all well_formed_record exs \<longrightarrow>
      (\<exists>plan. generate_fallback_plan profile exs = Inr plan)) \<and>
   (experience profile \<noteq> Some ''advanced'' \<and> ex \<in> set exs \<and> map_of ex ''difficulty'' = None \<longrightarrow>
      generate_fallback_plan profile exs = Inl (KeyError ''difficulty'')) \<and>
   (\<forall>suitable.
      suitable_exercises (case experience profile of None \<Rightarrow> ''beginner'' | Some x \<Rightarrow> x) exs
        = Inr suitable \<and>
      ex \<in> set (take 4 suitable) \<and> map_of ex ''name'' = None \<and>
      1 \<le> (case days_per_week profile of None \<Rightarrow> 3 | Some n \<Rightarrow> n) \<longrightarrow>
      generate_fallback_plan profile exs = Inl (KeyError ''name''))"
proof (intro conjI allI impI)
  assume "list_all well_formed_record exs"
  then show "\<exists>plan. generate_fallback_plan profile exs = Inr plan"
    by (simp add: fallback_returns list_all_iff)
next
  assume "experience profile \<noteq> Some ''advanced'' \<and> ex \<in> set exs \<and> map_of ex ''difficulty'' = None"
  then show "generate_fallback_plan profile exs = Inl (KeyError ''difficulty'')"
    using fallback_raises_without_difficulty[of ex exs profile] by simp
next
  fix suitable
  assume "suitable_exercises (case experience profile of None \<Rightarrow> ''beginner'' | Some x \<Rightarrow> x) exs
        = Inr suitable \<and>
      ex \<in> set (take 4 suitable) \<and> map_of ex ''name'' = None \<and>
      1 \<le> (case days_per_week profile of None \<Rightarrow> 3 | Some n \<Rightarrow> n)"
  then show "generate_fallback_plan profile exs = Inl (KeyError ''name'')"
    using fallback_raises_without_name[of profile exs suitable ex]
    by (simp add: profile_level_def profile_days_def)
qed

theorem fallback_reads_difficulty_and_name_witness:
  "(\<exists>plan. generate_fallback_plan example_profile example_exercises = Inr plan) \<and>
   generate_fallback_plan example_profile [push_ups, [(''name'', ''Star Jumps'')]]
     = Inl (KeyError ''difficulty'') \<and>
   generate_fallback_plan example_profile [push_ups, [(''difficulty'', ''beginner'')]]
     = Inl (KeyError ''name'')"
proof -
  have h: "list_all well_formed_record example_exercises"
    by (simp add: example_exercises_def well_formed_record_def)
  have s: "suitable_exercises ''beginner'' [push_ups, [(''difficulty'', ''beginner'')]]
      = Inr [push_ups, [(''difficulty'', ''beginner'')]]"
    by (simp add: suitable_exercises_def getitem_def)
  from fallback_reads_difficulty_and_name[of example_exercises example_profile "[]"] h
  have 1: "\<exists>plan. generate_fallback_plan example_profile example_exercises = Inr plan"
    by simp
  from fallback_reads_difficulty_and_name
         [of "[push_ups, [(''name'', ''Star Jumps'')]]" example_profile "[(''name'', ''Star Jumps'')]"]
  have 2: "generate_fallback_plan example_profile [push_ups, [(''name'', ''Star Jumps'')]]
     = Inl (KeyError ''difficulty'')"
    by (simp add: example_profile_def)
  from fallback_reads_difficulty_and_name
         [of "[push_ups, [(''difficulty'', ''beginner'')]]" example_profile
             "[(''difficulty'', ''beginner'')]"] s
  have 3: "generate_fallback_plan example_profile [push_ups, [(''difficulty'', ''beginner'')]]
     = Inl (KeyError ''name'')"
    by (simp add: example_profile_def)
  from 1 2 3 show ?thesis by simp
qed

section \<open>The de-duplication loop\<close>

lemma remove_duplicates_keep_new:
  "\<forall>ex\<in>set xs. map_of ex ''name'' \<noteq> None \<Longrightarrow>
   remove_duplicates xs seen uniq = Inr (uniq @ keep_new (Some ` seen) xs)"
proof (induction xs arbitrary: seen uniq)
  case Nil
  then show ?case by simp
next
  case (Cons x xs)
  then obtain n where n: "map_of x ''name'' = Some n" by auto
  from Cons.prems have rest: "\<forall>ex\<in>set xs. map_of ex ''name'' \<noteq> None" by simp
  show ?case
  proof (cases "n \<in> seen")
    case True
    with n Cons.IH[OF rest, of seen uniq] show ?thesis
      by (simp add: getitem_def name_of_def)
  next
    case False
    then have "Some n \<notin> Some ` seen" by auto
    with False n Cons.IH[OF rest, of "insert n seen" "uniq @ [x]"] show ?thesis
      by (simp add: getitem_def name_of_def)
  qed
qed

lemma keep_new_index:
  "keep_new seen xs =
     map (nth xs)
       (filter (\<lambda>i. name_of (xs ! i) \<notin> seen \<union> name_of ` set (take i xs)) [0..<length xs])"
proof (induction xs arbitrary: seen)
  case Nil
  then show ?case by simp
next
  case (Cons x xs)
  have upt: "[0..<length (x # xs)] = 0 # map Suc [0..<length xs]"
    by (simp add: upt_conv_Cons map_Suc_upt del: upt_Suc)
  show ?case
  proof (cases "name_of x \<in> seen")
    case True
    then have "\<And>n P. (n \<notin> seen \<and> n \<noteq> name_of x \<and> P) = (n \<notin> seen \<and> P)"
      by auto
    with True Cons.IH[of seen] show ?thesis
      unfolding upt by (simp add: filter_map comp_def del: upt_Suc)
  next
    case False
    with Cons.IH[of "insert (name_of x) seen"] show ?thesis
      unfolding upt by (simp add: filter_map comp_def conj_left_commute del: upt_Suc)
  qed
qed

lemma keep_new_subset: "set (keep_new seen xs) \<subseteq> set xs"
  by (induction xs arbitrary: seen) auto

lemma keep_new_names: "name_of ` set (keep_new seen xs) \<inter> seen = {}"
  by (induction xs arbitrary: seen) auto

lemma keep_new_distinct: "distinct (map name_of (keep_new seen xs))"
proof (induction xs arbitrary: seen)
  case Nil
  then show ?case by simp
next
  case (Cons x xs)
  have "name_of x \<notin> name_of ` set (keep_new (insert (name_of x) seen) xs)"
    using keep_new_names[of "insert (name_of x) seen" xs] by auto
  with Cons show ?case by simp
qed

lemma keep_new_id:
  "distinct (map name_of xs) \<Longrightarrow> name_of ` set xs \<inter> seen = {} \<Longrightarrow> keep_new seen xs = xs"
  by (induction xs arbitrary: seen) auto

lemma keep_new_idem: "keep_new {} (keep_new {} xs) = keep_new {} xs"
  by (rule keep_new_id) (simp_all add: keep_new_distinct)

lemma first_occurrences_keep_new: "spec_first_occurrences xs = keep_new {} xs"
  by (simp add: spec_first_occurrences_def keep_new_index)

lemma unique_exercises_of_ok:
  "\<forall>ex\<in>set xs. map_of ex ''name'' \<noteq> None \<Longrightarrow>
   unique_exercises_of xs = Inr (spec_first_occurrences xs)"
  by (simp add: unique_exercises_of_def remove_duplicates_keep_new first_occurrences_keep_new)

lemma gather_exercises_concat:
  "\<forall>a\<in>set areas. fetch (Some a) = Inr (rows a) \<Longrightarrow>
   gather_exercises fetch areas acc = Inr (acc @ concat (map rows areas))"
  by (induction areas arbitrary: acc) auto

text \<open>
  C4. On lists whose records all have a name, the loop applied to the concatenation of the
  lists retains exactly the first occurrence of each name, in the order of the input; the
  names of the result are distinct; applied to its own result it returns it unchanged; and
  \<open>[A, B, A]\<close> gives \<open>[A, B]\<close>.
\<close>

theorem dedup_first_occurrences:
  assumes "\<forall>ex\<in>set (concat xss). map_of ex ''name'' \<noteq> None"
  shows "unique_exercises_of (concat xss) = Inr (spec_first_occurrences (concat xss)) \<and>
         distinct (map (\<lambda>ex. map_of ex ''name'') (spec_first_occurrences (concat xss))) \<and>
         unique_exercises_of (spec_first_occurrences (concat xss))
           = Inr (spec_first_occurrences (concat xss)) \<and>
         (\<forall>A B. concat xss = [A, B, A] \<and> map_of A ''name'' \<noteq> map_of B ''name'' \<longrightarrow>
            unique_exercises_of (concat xss) = Inr [A, B])"
proof (intro conjI allI impI)
  show u: "unique_exercises_of (concat xss) = Inr (spec_first_occurrences (concat xss))"
    using assms by (rule unique_exercises_of_ok)
  have "distinct (map name_of (spec_first_occurrences (concat xss)))"
    by (simp add: first_occurrences_keep_new keep_new_distinct)
  then show "distinct (map (\<lambda>ex. map_of ex ''name'') (spec_first_occurrences (concat xss)))"
    by (simp add: name_of_def[abs_def])
  have "\<forall>ex\<in>set (spec_first_occurrences (concat xss)). map_of ex ''name'' \<noteq> None"
    using assms keep_new_subset[of "{}" "concat xss"]
    by (auto simp: first_occurrences_keep_new)
  then have "unique_exercises_of (spec_first_occurrences (concat xss))
      = Inr (spec_first_occurrences (spec_first_occurrences (concat xss)))"
    by (rule unique_exercises_of_ok)
  then show "unique_exercises_of (spec_first_occurrences (concat xss))
           = Inr (spec_first_occurrences (concat xss))"
    by (simp add: first_occurrences_keep_new keep_new_idem)
  fix A B
  assume "concat xss = [A, B, A] \<and> map_of A ''name'' \<noteq> map_of B ''name''"
  with u show "unique_exercises_of (concat xss) = Inr [A, B]"
    by (auto simp: first_occurrences_keep_new name_of_def)
qed

theorem dedup_first_occurrences_witness:
  "unique_exercises_of (concat [[push_ups, squats], [push_ups], [plank, squats]])
     = Inr [push_ups, squats, plank] \<and>
   unique_exercises_of [push_ups, squats, plank] = Inr [push_ups, squats, plank] \<and>
   unique_exercises_of (concat [[push_ups, squats, push_ups]]) = Inr [push_ups, squats]"
proof -
  have h1: "\<forall>ex\<in>set (concat [[push_ups, squats], [push_ups], [plank, squats]]).
      map_of ex ''name'' \<noteq> None" by simp
  have h2: "\<forall>ex\<in>set (concat [[push_ups, squats, push_ups]]). map_of ex ''name'' \<noteq> None"
    by simp
  have f: "spec_first_occurrences (concat [[push_ups, squats], [push_ups], [plank, squats]])
      = [push_ups, squats, plank]"
    by (simp add: first_occurrences_keep_new name_of_def)
  have g: "spec_first_occurrences (concat [[push_ups, squats, push_ups]]) = [push_ups, squats]"
    by (simp add: first_occurrences_keep_new name_of_def)
  from dedup_first_occurrences[OF h1] f dedup_first_occurrences[OF h2] g
  show ?thesis by simp
qed

section \<open>The exercise fetch\<close>

lemma contains_Nil [simp]: "contains s [] = True"
  by (cases s) simp_all

lemma filter_by_muscle_ok:
  "\<forall>ex\<in>set exs. map_of ex ''muscle'' \<noteq> None \<Longrightarrow>
   filter_by_muscle g exs = Inr (filter (muscle_matches g) exs)"
  by (induction exs) (auto simp: getitem_def muscle_matches_def)

lemma catalog_muscles [simp]:
  "map_of push_ups ''muscle'' = Some ''chest''"
  "map_of squats ''muscle'' = Some ''quadriceps''"
  "map_of plank ''muscle'' = Some ''abdominals''"
  "map_of lunges ''muscle'' = Some ''quadriceps''"
  "map_of burpees ''muscle'' = Some ''full_body''"
  "map_of mountain_climbers ''muscle'' = Some ''abdominals''"
  "map_of deadlifts ''muscle'' = Some ''hamstrings''"
  "map_of pull_ups ''muscle'' = Some ''lats''"
  "map_of bicep_curls ''muscle'' = Some ''biceps''"
  "map_of tricep_dips ''muscle'' = Some ''triceps''"
  by (simp_all add: push_ups_def squats_def plank_def lunges_def burpees_def
      mountain_climbers_def deadlifts_def pull_ups_def bicep_curls_def tricep_dips_def)

lemma catalog_has_muscle: "\<forall>ex\<in>set fallback_catalog. map_of ex ''muscle'' \<noteq> None"
  by (simp add: fallback_catalog_def)

lemma length_fallback_catalog: "length fallback_catalog = 10"
  by (simp add: fallback_catalog_def)

lemma muscle_matches_empty: "ex \<in> set fallback_catalog \<Longrightarrow> muscle_matches [] ex"
  using catalog_has_muscle by (auto simp: muscle_matches_def lower_def)

lemma get_fallback_exercises_eq:
  "get_fallback_exercises muscle_group = Inr (spec_catalog_filter muscle_group)"
proof (cases muscle_group)
  case None
  then show ?thesis by (simp add: get_fallback_exercises_def spec_catalog_filter_def)
next
  case (Some g)
  show ?thesis
  proof (cases "g = []")
    case True
    have "filter (muscle_matches []) fallback_catalog = fallback_catalog"
      by (rule filter_True) (simp add: muscle_matches_empty)
    with True Some show ?thesis
      by (simp add: get_fallback_exercises_def spec_catalog_filter_def)
  next
    case False
    with Some show ?thesis
      by (simp add: get_fallback_exercises_def spec_catalog_filter_def
          filter_by_muscle_ok[OF catalog_has_muscle])
  qed
qed

lemma fetch_never_raises:
  "\<exists>rows. fetch_exercises_ninja_api secrets_get requests_get muscle_group = Inr rows"
  by (simp add: fetch_exercises_ninja_api_def get_fallback_exercises_eq Let_def
      split: sum.splits)

lemma lower_examples:
  "lower ''Chest'' = ''chest''" "lower ''chest'' = ''chest''"
  "lower ''quadriceps'' = ''quadriceps''" "lower ''abdominals'' = ''abdominals''"
  "lower ''full_body'' = ''full_body''" "lower ''hamstrings'' = ''hamstrings''"
  "lower ''lats'' = ''lats''" "lower ''biceps'' = ''biceps''" "lower ''triceps'' = ''triceps''"
  "lower ''CEPS'' = ''ceps''"
  by (simp_all add: lower_def to_lower_def ascii_lowercase_def ascii_uppercase_def)

lemma catalog_matching_examples:
  "spec_catalog_filter (Some ''Chest'') = [push_ups]"
  "spec_catalog_filter (Some ''CEPS'') = [squats, lunges, bicep_curls, tricep_dips]"
  by (simp_all add: spec_catalog_filter_def fallback_catalog_def muscle_matches_def lower_examples)

text \<open>
  C9. Whatever the muscle group: when reading the secret raises, when the request raises,
  when the status is not 200 or when decoding the body raises, the fetch returns the local
  catalog of ten exercises filtered by the case-insensitive substring match on the
  \<^verbatim>\<open>muscle\<close> field, or the whole catalog without a muscle group; and it never raises.
\<close>

theorem fetch_falls_back_to_catalog:
  "(secrets_get ''NINJA_API_KEY'' ''your_ninja_api_key_here'' = Inl e \<longrightarrow>
      fetch_exercises_ninja_api secrets_get requests_get muscle_group
        = Inr (spec_catalog_filter muscle_group)) \<and>
   (secrets_get ''NINJA_API_KEY'' ''your_ninja_api_key_here'' = Inr api_key \<and>
    requests_get ninja_url [(''X-Api-Key'', api_key)] (request_params muscle_group) = Inl e \<longrightarrow>
      fetch_exercises_ninja_api secrets_get requests_get muscle_group
        = Inr (spec_catalog_filter muscle_group)) \<and>
   (secrets_get ''NINJA_API_KEY'' ''your_ninja_api_key_here'' = Inr api_key \<and>
    requests_get ninja_url [(''X-Api-Key'', api_key)] (request_params muscle_group) = Inr response \<and>
    status_code response \<noteq> 200 \<longrightarrow>
      fetch_exercises_ninja_api secrets_get requests_get muscle_group
        = Inr (spec_catalog_filter muscle_group)) \<and>
   (secrets_get ''NINJA_API_KEY'' ''your_ninja_api_key_here'' = Inr api_key \<and>
    requests_get ninja_url [(''X-Api-Key'', api_key)] (request_params muscle_group) = Inr response \<and>
    json response = Inl e \<longrightarrow>
      fetch_exercises_ninja_api secrets_get requests_get muscle_group
        = Inr (spec_catalog_filter muscle_group)) \<and>
   (\<exists>rows. fetch_exercises_ninja_api secrets_get requests_get muscle_group = Inr rows) \<and>
   length fallback_catalog = 10"
  using fetch_never_raises[of secrets_get requests_get muscle_group]
  by (simp add: fetch_exercises_ninja_api_def get_fallback_exercises_eq Let_def
      length_fallback_catalog)

theorem fetch_falls_back_to_catalog_witness:
  "fetch_exercises_ninja_api (\<lambda>k d. Inl ServiceError) (\<lambda>u h p. Inl ServiceError) (Some ''Chest'')
     = Inr [push_ups] \<and>
   fetch_exercises_ninja_api (\<lambda>k d. Inr d) (\<lambda>u h p. Inl ServiceError) None
     = Inr fallback_catalog \<and>
   fetch_exercises_ninja_api (\<lambda>k d. Inr d)
       (\<lambda>u h p. Inr \<lparr>status_code = 401, json = Inr []\<rparr>) (Some ''CEPS'')
     = Inr [squats, lunges, bicep_curls, tricep_dips] \<and>
   fetch_exercises_ninja_api (\<lambda>k d. Inr d)
       (\<lambda>u h p. Inr \<lparr>status_code = 200, json = Inl JSONDecodeError\<rparr>) (Some ''Chest'')
     = Inr [push_ups]"
proof -
  from fetch_falls_back_to_catalog
    [of "\<lambda>k d. Inl ServiceError" ServiceError "\<lambda>u h p. Inl ServiceError" "Some ''Chest''" "[]"
        "\<lparr>status_code = 401, json = Inr []\<rparr>"]
  have 1: "fetch_exercises_ninja_api (\<lambda>k d. Inl ServiceError) (\<lambda>u h p. Inl ServiceError)
      (Some ''Chest'') = Inr [push_ups]"
    by (simp add: catalog_matching_examples)
  from fetch_falls_back_to_catalog
    [of "\<lambda>k d. Inr d" ServiceError "\<lambda>u h p. Inl ServiceError" None "''your_ninja_api_key_here''"
        "\<lparr>status_code = 401, json = Inr []\<rparr>"]
  have 2: "fetch_exercises_ninja_api (\<lambda>k d. Inr d) (\<lambda>u h p. Inl ServiceError) None
     = Inr fallback_catalog"
    by (simp add: spec_catalog_filter_def)
  from fetch_falls_back_to_catalog
    [of "\<lambda>k d. Inr d" ServiceError "\<lambda>u h p. Inr \<lparr>status_code = 401, json = Inr []\<rparr>"
        "Some ''CEPS''" "''your_ninja_api_key_here''" "\<lparr>status_code = 401, json = Inr []\<rparr>"]
  have 3: "fetch_exercises_ninja_api (\<lambda>k d. Inr d)
       (\<lambda>u h p. Inr \<lparr>status_code = 401, json = Inr []\<rparr>) (Some ''CEPS'')
     = Inr [squats, lunges, bicep_curls, tricep_dips]"
    by (simp add: catalog_matching_examples)
  from fetch_falls_back_to_catalog
    [of "\<lambda>k d. Inr d" JSONDecodeError
        "\<lambda>u h p. Inr \<lparr>status_code = 200, json = Inl JSONDecodeError\<rparr>"
        "Some ''Chest''" "''your_ninja_api_key_here''"
        "\<lparr>status_code = 200, json = Inl JSONDecodeError\<rparr>"]
  have 4: "fetch_exercises_ninja_api (\<lambda>k d. Inr d)
       (\<lambda>u h p. Inr \<lparr>status_code = 200, json = Inl JSONDecodeError\<rparr>) (Some ''Chest'')
     = Inr [push_ups]"
    by (simp add: catalog_matching_examples)
  from 1 2 3 4 show ?thesis by simp
qed

section \<open>The plan requester\<close>

lemma generate_without_model:
  "generate_workout_plan None json_loads profile exs = fallback_result profile exs"
  by (simp add: generate_workout_plan_def)

lemma generate_service_raises:
  "generate_content profile summary = Inl e \<Longrightarrow> exercise_summary exs = Inr summary \<Longrightarrow>
   generate_workout_plan (Some generate_content) json_loads profile exs
     = fallback_result profile exs"
  by (simp add: generate_workout_plan_def)

lemma generate_summary_raises:
  "exercise_summary exs = Inl e \<Longrightarrow>
   generate_workout_plan (Some generate_content) json_loads profile exs
     = fallback_result profile exs"
  by (simp add: generate_workout_plan_def)

lemma rfind_from_ge: "- 1 \<le> found \<Longrightarrow> 0 \<le> i \<Longrightarrow> - 1 \<le> rfind_from s sub i found"
proof (induction s arbitrary: i found)
  case Nil
  then show ?case by simp
next
  case (Cons c cs)
  then show ?case by simp
qed

lemma end_idx_never_minus_one: "rfind_str s sub + 1 \<noteq> - 1"
  using rfind_from_ge[of "- 1" 0 s sub] by (simp add: rfind_str_def)

lemma parse_plan_cases:
  "parse_plan json_loads profile exs text =
     (let plan_text = clean_plan_text text in
      case json_loads (if find_str plan_text ''{'' \<noteq> - 1
                       then slice plan_text (find_str plan_text ''{'') (rfind_str plan_text ''}'' + 1)
                       else plan_text) of
        Inl e \<Rightarrow> fallback_result profile exs
      | Inr plan \<Rightarrow> Inr (AIPlan plan))"
  by (simp add: parse_plan_def Let_def end_idx_never_minus_one)

lemma parse_plan_first_attempt:
  "find_str (clean_plan_text text) ''{'' \<noteq> - 1 \<Longrightarrow>
   json_loads (slice (clean_plan_text text) (find_str (clean_plan_text text) ''{'')
                 (rfind_str (clean_plan_text text) ''}'' + 1)) = Inr plan \<Longrightarrow>
   parse_plan json_loads profile exs text = Inr (AIPlan plan)"
  by (simp add: parse_plan_cases Let_def)

lemma parse_plan_first_attempt_fails:
  "find_str (clean_plan_text text) ''{'' \<noteq> - 1 \<Longrightarrow>
   json_loads (slice (clean_plan_text text) (find_str (clean_plan_text text) ''{'')
                 (rfind_str (clean_plan_text text) ''}'' + 1)) = Inl e \<Longrightarrow>
   parse_plan json_loads profile exs text = fallback_result profile exs"
  by (simp add: parse_plan_cases Let_def)

lemma parse_plan_without_brace:
  "find_str (clean_plan_text text) ''{'' = - 1 \<Longrightarrow>
   parse_plan json_loads profile exs text =
     (case json_loads (clean_plan_text text) of
        Inl e \<Rightarrow> fallback_result profile exs
      | Inr plan \<Rightarrow> Inr (AIPlan plan))"
  by (simp add: parse_plan_cases Let_def)

lemma array_text_clean: "clean_plan_text array_text = array_text"
  by (simp add: clean_plan_text_def strip_def is_space_def array_text_def)

lemma array_text_slice:
  \<open>find_str array_text ''{'' = 1\<close>
  \<open>slice array_text 1 (rfind_str array_text ''}'' + 1) = ''{"a": 1}, {"b": 2}''\<close>
  by (simp_all add: array_text_def find_str_def rfind_str_def slice_def)

lemma array_text_slice_differs: \<open>''{"a": 1}, {"b": 2}'' \<noteq> array_text\<close>
  by (simp add: array_text_def)

text \<open>
  C8. The claim has a second attempt, on the whole text, whenever the first parse fails.
  In the code the parse of the text between the braces is not guarded by the inner
  \<^verbatim>\<open>try\<close>: its failure goes to the outer handler and the fallback plan is returned.  On
  the response \<^verbatim>\<open>[{"a": 1}, {"b": 2}]\<close> the requester returns the fallback plan although
  the whole text parses.
\<close>

theorem generate_workout_plan_no_second_attempt:
  "generate_workout_plan (Some (\<lambda>p summary. Inr array_text)) array_only_loads profile exs
     = fallback_result profile exs \<and>
   array_only_loads (clean_plan_text array_text) = Inr array_text"
proof -
  have "parse_plan array_only_loads profile exs array_text = fallback_result profile exs"
    by (simp add: parse_plan_cases array_text_clean array_text_slice array_only_loads_def
        array_text_slice_differs)
  then show ?thesis
    by (simp add: generate_workout_plan_def array_text_clean array_only_loads_def
        split: sum.splits)
qed

end
